theory Spec2Isabelle
  imports Complex_Main "HOL-Library.Sublist"
begin

section \<open>Python strings\<close>

text \<open>
  A Python \<open>str\<close> is modelled as a \<open>string\<close> (a list of 8-bit characters). The
  vocabulary of the program (keywords, patterns, placeholders) is pure ASCII; a code point
  beyond ASCII that occurs in a literal of the source (the bullet of the two fixed
  messages) is written as its UTF-8 bytes. The character classes below are the ASCII
  part of Python's classes: a character beyond ASCII is neither a letter, a digit nor
  whitespace, and \<open>lower\<close> leaves it as it is.
\<close>

abbreviation (input) NL :: char where
  "NL \<equiv> CHR 0x0A"

text \<open>\<open>str.isupper()\<close> on one character\<close>

definition is_upper :: "char \<Rightarrow> bool" where
  "is_upper c = (let n = (of_char c :: nat) in 65 \<le> n \<and> n \<le> 90)"

text \<open>\<open>str.lower()\<close>: an upper-case letter \<open>A..Z\<close> (codes 65 to 90) becomes the letter
  32 codes higher, which is the same code with bit 5 set.\<close>

definition lower_char :: "char \<Rightarrow> char" where
  "lower_char c =
     (if is_upper c
      then (case c of Char b0 b1 b2 b3 b4 b5 b6 b7 \<Rightarrow> Char b0 b1 b2 b3 b4 True b6 b7)
      else c)"

definition lower :: "string \<Rightarrow> string" where
  "lower s = map lower_char s"

text \<open>\<open>str.isspace()\<close> on one character: tab, newline, vertical tab, form feed,
  carriage return, the four separators \<open>0x1C..0x1F\<close> and the blank.\<close>

definition is_space :: "char \<Rightarrow> bool" where
  "is_space c = (let n = (of_char c :: nat) in (9 \<le> n \<and> n \<le> 13) \<or> (28 \<le> n \<and> n \<le> 32))"

text \<open>\<open>str.rstrip(chars)\<close>, \<open>str.lstrip(chars)\<close> with the set of characters given as a
  predicate, and \<open>str.strip()\<close>, which strips whitespace on both sides.\<close>

definition rstrip_of :: "(char \<Rightarrow> bool) \<Rightarrow> string \<Rightarrow> string" where
  "rstrip_of P s = rev (dropWhile P (rev s))"

definition strip :: "string \<Rightarrow> string" where
  "strip s = rstrip_of is_space (dropWhile is_space s)"

text \<open>\<open>k in s\<close> on strings: \<open>k\<close> occurs in \<open>s\<close> as a contiguous substring.\<close>

fun py_in :: "string \<Rightarrow> string \<Rightarrow> bool" where
  "py_in k [] = (k = [])"
| "py_in k (c # cs) = (prefix k (c # cs) \<or> py_in k cs)"

text \<open>\<open>any(k in s for k in ks)\<close>\<close>

definition any_in :: "string list \<Rightarrow> string \<Rightarrow> bool" where
  "any_in ks s = list_ex (\<lambda>k. py_in k s) ks"

text \<open>\<open>sum(1 for k in ks if k in s)\<close>\<close>

definition count_in :: "string list \<Rightarrow> string \<Rightarrow> nat" where
  "count_in ks s = length (filter (\<lambda>k. py_in k s) ks)"

section \<open>Python floats\<close>

text \<open>
  \<open>len(text) * 0.7\<close> is a product of IEEE-754 doubles. The literal \<open>0.7\<close> is the double
  \<open>6305039478318694 / 2^53\<close>, the length is exact as a double (below \<open>2^53\<close>), and the
  product of the two is rounded to 53 significant bits, to nearest, ties to even. So
  \<open>10 * 0.7\<close> is \<open>7.0\<close>, but \<open>90 * 0.7\<close> is the double just below \<open>63\<close>.
\<close>

fun bit_length :: "nat \<Rightarrow> nat" where
  "bit_length n = (if n = 0 then 0 else Suc (bit_length (n div 2)))"

declare bit_length.simps [simp del]

definition round_to_53_bits :: "nat \<Rightarrow> nat" where
  "round_to_53_bits p =
     (let sh = bit_length p - 53;
          q = p div 2 ^ sh;
          r = p mod 2 ^ sh;
          q' = (if 2 ^ sh < 2 * r \<or> (2 * r = 2 ^ sh \<and> odd q) then q + 1 else q)
      in q' * 2 ^ sh)"

definition float_mul_07 :: "nat \<Rightarrow> rat" where
  "float_mul_07 n = of_nat (round_to_53_bits (n * 6305039478318694)) / 2 ^ 53"

section \<open>The safety filter (backend/safety\_filter.py)\<close>

definition crisis_keywords :: "string list" where
  "crisis_keywords =
     [''suicide'', ''suicidal'', ''kill myself'', ''end my life'', ''die'',
      ''self harm'', ''cutting'', ''overdose'', ''hurt myself'',
      ''want to die'', ''better off dead'', ''no reason to live'']"

definition medical_keywords :: "string list" where
  "medical_keywords =
     [''diagnose'', ''diagnosis'', ''prescribe'', ''prescription'', ''medication'',
      ''disorder'', ''condition'', ''treatment plan'', ''therapy'', ''cure'',
      ''illness'', ''disease'', ''syndrome'', ''clinical'']"

definition prohibited_phrases :: "string list" where
  "prohibited_phrases =
     [''you have'', ''you are diagnosed'', ''you suffer from'',
      ''i diagnose'', ''you need medication'', ''take these pills'',
      ''you should stop taking'', ''this is definitely'']"

definition get_crisis_response :: string where
  "get_crisis_response =
     ''I'm concerned about what you've shared. Please know that you ''
     @ ''don't have to face this alone.'' @ [NL, NL]
     @ ''**If you're in immediate danger, please:**''
     @ [NL, CHR 0xE2, CHR 0x80, CHR 0xA2]
     @ '' Call emergency services (911 in US)''
     @ [NL, CHR 0xE2, CHR 0x80, CHR 0xA2] @ '' Go to your nearest emergency room''
     @ [NL, CHR 0xE2, CHR 0x80, CHR 0xA2] @ '' Call a crisis hotline:'' @ [NL]
     @ ''  - National Suicide Prevention Lifeline: 988'' @ [NL]
     @ ''  - Crisis Text Line: Text HOME to 741741'' @ [NL]
     @ ''  - International: findahelpline.com'' @ [NL, NL]
     @ ''You deserve support from trained professionals who can help ''
     @ ''you through this. I'm here to listen, but I'm not equipped to ''
     @ ''handle crisis situations. Please reach out to one of the resources ''
     @ ''above.''"

record crisis_verdict =
  is_crisis :: bool
  severity :: string
  message :: "string option"

definition check_crisis :: "string \<Rightarrow> crisis_verdict" where
  "check_crisis text =
     (let text_lower = lower text;
          crisis_detected = any_in crisis_keywords text_lower
      in if crisis_detected
         then \<lparr>is_crisis = True, severity = ''high'', message = Some get_crisis_response\<rparr>
         else \<lparr>is_crisis = False, severity = ''none'', message = None\<rparr>)"

definition get_safe_alternative :: string where
  "get_safe_alternative =
     ''I want to support you, but I'm not qualified to provide medical ''
     @ ''advice or diagnosis. '' @ [NL, NL]
     @ ''If you're experiencing mental health concerns, I encourage you ''
     @ ''to:'' @ [NL, CHR 0xE2, CHR 0x80, CHR 0xA2]
     @ '' Speak with a healthcare provider'' @ [NL, CHR 0xE2, CHR 0x80, CHR 0xA2]
     @ '' Contact a mental health professional''
     @ [NL, CHR 0xE2, CHR 0x80, CHR 0xA2] @ '' Call a helpline for guidance''
     @ [NL, NL]
     @ ''I'm here to listen and provide general emotional support. How ''
     @ ''are you feeling right now?''"

definition mental_health_terms :: "string list" where
  "mental_health_terms =
     [''depression'', ''anxiety'', ''mental health'', ''therapy'',
      ''counseling'', ''psychologist'', ''psychiatrist'']"

definition is_mental_health_topic :: "string \<Rightarrow> bool" where
  "is_mental_health_topic text = any_in mental_health_terms text"

definition disclaimer :: string where
  "disclaimer =
     [NL, NL] @ ''*Remember: I'm here for support, but I'm not a therapist or ''
     @ ''medical professional.*''"

definition add_disclaimer :: "string \<Rightarrow> string" where
  "add_disclaimer response =
     (if \<not> py_in disclaimer response then response @ disclaimer else response)"

text \<open>\<open>filter_response(response, user_message)\<close>; the second argument is not read.\<close>

definition filter_response :: "string \<Rightarrow> string \<Rightarrow> string \<times> bool" where
  "filter_response response user_message =
     (let response_lower = lower response;
          contains_medical = any_in medical_keywords response_lower;
          contains_prohibited = any_in prohibited_phrases response_lower
      in if contains_medical \<or> contains_prohibited
         then (get_safe_alternative, False)
         else if is_mental_health_topic response_lower
              then (add_disclaimer response, True)
              else (response, True))"

record validation =
  valid :: bool
  reason :: string
  suggestion :: "string option"

definition validate_user_input :: "string \<Rightarrow> validation" where
  "validate_user_input text =
     (case text of
        [] \<Rightarrow> \<lparr>valid = False, reason = ''empty'',
               suggestion = Some ''Please share what's on your mind.''\<rparr>
      | c0 # _ \<Rightarrow>
          if length (strip text) < 2
          then \<lparr>valid = False, reason = ''empty'',
                suggestion = Some ''Please share what's on your mind.''\<rparr>
          else if length (remdups text) < 3
                  \<or> float_mul_07 (length text) < of_nat (count_list text c0)
          then \<lparr>valid = False, reason = ''gibberish'',
                suggestion = Some ''I'm having trouble understanding. Could you rephrase that?''\<rparr>
          else if 1000 < length text
          then \<lparr>valid = True, reason = ''long'',
                suggestion = Some ''That's a lot to process! Let's break it down together.''\<rparr>
          else \<lparr>valid = True, reason = ''ok'', suggestion = None\<rparr>)"

section \<open>The emotion detector (backend/emotion\_detector.py)\<close>

text \<open>
  Python floats that the detector computes are modelled as rationals. The fallback
  polarity is a quotient of two counts of at most 24 and is compared with \<open>0.3\<close> and
  \<open>0.1\<close> only; the confidence is a multiple of \<open>0.25\<close>; the intensity score without a
  sentiment scorer is a multiple of \<open>0.5\<close>: the rounding of doubles changes none of these
  comparisons. The scores of the optional sentiment scorer (TextBlob) are taken as
  rationals too.

  A dictionary is an association list in its order of declaration, which is the order
  in which Python iterates over it.
\<close>

definition emotion_keywords :: "(string \<times> string list) list" where
  "emotion_keywords =
     [(''sad'',
       [''sad'', ''depressed'', ''down'', ''unhappy'', ''miserable'', ''crying'',
        ''tears'', ''hopeless'', ''lonely'', ''empty'', ''hurt'', ''pain'',
        ''grief'', ''loss'', ''heartbroken'', ''devastated'']),
      (''anxious'',
       [''anxious'', ''worried'', ''nervous'', ''stress'', ''panic'', ''fear'',
        ''scared'', ''overwhelmed'', ''tense'', ''restless'', ''uneasy'',
        ''terrified'', ''afraid'', ''concern'', ''dread'']),
      (''angry'',
       [''angry'', ''mad'', ''furious'', ''annoyed'', ''irritated'', ''frustrated'',
        ''rage'', ''upset'', ''hate'', ''pissed'', ''infuriated'', ''resentful'']),
      (''happy'',
       [''happy'', ''joy'', ''excited'', ''great'', ''wonderful'', ''amazing'',
        ''love'', ''grateful'', ''blessed'', ''content'', ''cheerful'',
        ''delighted'', ''pleased'', ''glad'', ''fantastic'']),
      (''fearful'',
       [''fear'', ''scared'', ''afraid'', ''terrified'', ''frightened'',
        ''horror'', ''panic'', ''dread'', ''phobia'', ''nightmare'']),
      (''confused'',
       [''confused'', ''lost'', ''unsure'', ''don't know'', ''uncertain'',
        ''puzzled'', ''mixed'', ''conflicted''])]"

definition intensity_words_high :: "string list" where
  "intensity_words_high =
     [''very'', ''extremely'', ''incredibly'', ''so'', ''really'', ''absolutely'']"

definition intensity_words_low :: "string list" where
  "intensity_words_low = [''a bit'', ''slightly'', ''somewhat'', ''kind of'', ''sort of'']"

definition positive_words :: "string list" where
  "positive_words =
     [''happy'', ''joy'', ''good'', ''great'', ''wonderful'', ''amazing'', ''love'',
      ''glad'', ''fantastic'', ''pleased'', ''excited'', ''grateful'']"

definition negative_words :: "string list" where
  "negative_words =
     [''sad'', ''depressed'', ''bad'', ''terrible'', ''awful'', ''hate'', ''angry'',
      ''miserable'', ''lonely'', ''upset'', ''anxious'', ''worried'']"

text \<open>\<open>round(x, 2)\<close>: to two decimals, a tie going to the even neighbour.\<close>

definition round2 :: "rat \<Rightarrow> rat" where
  "round2 x =
     (let y = x * 100;
          f = \<lfloor>y\<rfloor>;
          d = y - of_int f;
          n = (if d < 1 / 2 then f else if 1 / 2 < d then f + 1
               else if even f then f else f + 1)
      in of_int n / 100)"

text \<open>The share of upper-case characters, \<open>sum(1 for c in text if c.isupper()) /
  max(len(text), 1)\<close>.\<close>

definition caps_ratio :: "string \<Rightarrow> rat" where
  "caps_ratio text = of_nat (length (filter is_upper text)) / of_nat (max (length text) 1)"

definition calculate_intensity :: "string \<Rightarrow> rat \<Rightarrow> string" where
  "calculate_intensity text subjectivity =
     (let high_count = count_in intensity_words_high text;
          low_count = count_in intensity_words_low text;
          exclamation_count = count_list text (CHR ''!'');
          intensity_score =
            of_nat high_count * 2
            + of_nat exclamation_count * (3 / 2)
            + caps_ratio text * 10
            + subjectivity * 2
            - of_nat low_count * 2
      in if 5 < intensity_score then ''high''
         else if 2 < intensity_score then ''medium''
         else ''low'')"

text \<open>
  The sentiment scorer is an optional dependency. \<open>None\<close> stands for a missing import
  (\<open>HAS_TEXTBLOB\<close> false); otherwise the scorer maps a text to its polarity and
  subjectivity, or to \<open>None\<close> when it raises an exception that the source's
  \<open>except Exception\<close> catches.
\<close>

type_synonym sentiment_scorer = "(string \<Rightarrow> (rat \<times> rat) option) option"

definition sentiment_of :: "sentiment_scorer \<Rightarrow> string \<Rightarrow> rat \<times> rat" where
  "sentiment_of scorer text =
     (case scorer of
        Some blob \<Rightarrow> (case blob text of Some (p, s) \<Rightarrow> (p, s) | None \<Rightarrow> (0, 0))
      | None \<Rightarrow>
          (let text_lower = lower text;
               pos_count = count_in positive_words text_lower;
               neg_count = count_in negative_words text_lower
           in if pos_count + neg_count = 0 then (0, 0)
              else ((of_nat pos_count - of_nat neg_count)
                      / of_nat (max 1 (pos_count + neg_count)), 0)))"

text \<open>The dictionary \<open>emotion_scores\<close>: the emotions with at least one keyword in the
  text, each with its number of matching keywords.\<close>

definition emotion_scores :: "string \<Rightarrow> (string \<times> nat) list" where
  "emotion_scores text_lower =
     filter (\<lambda>(emotion, score). 0 < score)
       (map (\<lambda>(emotion, keywords). (emotion, count_in keywords text_lower)) emotion_keywords)"

text \<open>\<open>max(d, key=d.get)\<close> on a dictionary that is not empty: the first key, in the
  order of the dictionary, whose value is the greatest.\<close>

fun max_key :: "string \<times> nat \<Rightarrow> (string \<times> nat) list \<Rightarrow> string \<times> nat" where
  "max_key best [] = best"
| "max_key best (kv # kvs) = max_key (if snd best < snd kv then kv else best) kvs"

record emotion_data =
  primary_emotion :: string
  confidence :: rat
  sentiment :: string
  intensity :: string
  polarity :: rat
  subjectivity :: rat

definition detect_emotion :: "sentiment_scorer \<Rightarrow> string \<Rightarrow> emotion_data" where
  "detect_emotion scorer text =
     (let text_lower = lower text;
          (pol, subj) = sentiment_of scorer text;
          (primary, conf) =
            (case emotion_scores text_lower of
               kv # kvs \<Rightarrow>
                 (let (e, score) = max_key kv kvs in (e, min (of_nat score * (1 / 4)) 1))
             | [] \<Rightarrow>
                 if 3 / 10 < pol then (''happy'', pol)
                 else if pol < - (3 / 10) then (''sad'', \<bar>pol\<bar>)
                 else (''neutral'', 1 / 2))
      in \<lparr>primary_emotion = primary,
          confidence = round2 conf,
          sentiment = (if 1 / 10 < pol then ''positive''
                       else if pol < - (1 / 10) then ''negative'' else ''neutral''),
          intensity = calculate_intensity text_lower subj,
          polarity = round2 pol,
          subjectivity = round2 subj\<rparr>)"

definition emoji_map :: "(string \<times> string) list" where
  "emoji_map =
     [(''sad'', [CHR 0xC3, CHR 0xB0, CHR 0xC5, CHR 0xB8, CHR 0xCB, CHR 0x9C, CHR 0xC2, CHR 0xA2]),
      (''anxious'', [CHR 0xC3, CHR 0xB0, CHR 0xC5, CHR 0xB8, CHR 0xCB, CHR 0x9C, CHR 0xC2, CHR 0xB0]),
      (''angry'', [CHR 0xC3, CHR 0xB0, CHR 0xC5, CHR 0xB8, CHR 0xCB, CHR 0x9C, CHR 0xC2, CHR 0xA0]),
      (''happy'', [CHR 0xC3, CHR 0xB0, CHR 0xC5, CHR 0xB8, CHR 0xCB, CHR 0x9C, CHR 0xC5, CHR 0xA0]),
      (''fearful'', [CHR 0xC3, CHR 0xB0, CHR 0xC5, CHR 0xB8, CHR 0xCB, CHR 0x9C, CHR 0xC2, CHR 0xA8]),
      (''confused'',
       [CHR 0xC3, CHR 0xB0, CHR 0xC5, CHR 0xB8, CHR 0xCB, CHR 0x9C, CHR 0xE2, CHR 0x80, CHR 0xA2]),
      (''neutral'', [CHR 0xC3, CHR 0xB0, CHR 0xC5, CHR 0xB8, CHR 0xCB, CHR 0x9C])]"

definition get_emotion_emoji :: "string \<Rightarrow> string" where
  "get_emotion_emoji emotion =
     (case map_of emoji_map emotion of
        Some e \<Rightarrow> e
      | None \<Rightarrow> [CHR 0xC3, CHR 0xB0, CHR 0xC5, CHR 0xB8, CHR 0xE2, CHR 0x80, CHR 0x99, CHR 0xC2, CHR 0xAD])"

definition color_map :: "(string \<times> string) list" where
  "color_map =
     [(''sad'', ''#6B8E23''), (''anxious'', ''#FF8C00''), (''angry'', ''#DC143C''),
      (''happy'', ''#32CD32''), (''fearful'', ''#9370DB''), (''confused'', ''#4682B4''),
      (''neutral'', ''#808080'')]"

definition get_emotion_color :: "string \<Rightarrow> string" where
  "get_emotion_color emotion =
     (case map_of color_map emotion of Some c \<Rightarrow> c | None \<Rightarrow> ''#808080'')"

section \<open>The prompt builder (utils/prompts.py)\<close>

record turn =
  role :: string
  content :: string

definition system_prompt :: string where
  "system_prompt =
     ''You are a compassionate mental wellness companion. Your role '' @ ''is to:''
     @ [NL, NL] @ ''- Listen actively and validate emotions'' @ [NL]
     @ ''- Provide supportive, non-judgmental responses'' @ [NL]
     @ ''- Offer general wellness tips and coping strategies'' @ [NL]
     @ ''- Encourage self-care and healthy habits'' @ [NL]
     @ ''- NEVER diagnose or provide medical advice'' @ [NL]
     @ ''- NEVER claim to be a therapist or medical professional'' @ [NL]
     @ ''- Redirect to professional help when appropriate'' @ [NL, NL]
     @ ''Guidelines:'' @ [NL]
     @ ''- Keep responses warm, empathetic, and concise (2-4 sentences)'' @ [NL]
     @ ''- Use '' @ [CHR 0x22] @ ''I understand'' @ [CHR 0x22] @ '', ''
     @ [CHR 0x22] @ ''That sounds difficult'' @ [CHR 0x22] @ '', '' @ [CHR 0x22]
     @ ''Your feelings are valid'' @ [CHR 0x22, NL]
     @ ''- Ask thoughtful follow-up questions'' @ [NL]
     @ ''- Suggest healthy coping mechanisms'' @ [NL]
     @ ''- Avoid clinical language'' @ [NL] @ ''- Be authentic and human''
     @ [NL, NL]
     @ ''If someone is in crisis, immediately suggest professional crisis ''
     @ ''resources.''"

definition emotion_guidance :: "(string \<times> string) list" where
  "emotion_guidance =
     [(''sad'',
       ''The user is feeling sad. Acknowledge their pain, validate their ''
       @ ''feelings, '' @ [NL]
       @ ''            and gently encourage them without dismissing their ''
       @ ''emotions. Suggest small, '' @ [NL]
       @ ''            manageable self-care activities.''),
      (''anxious'',
       ''The user is feeling anxious. Help them feel grounded. Suggest '' @ [NL]
       @ ''            breathing exercises or grounding techniques. Remind ''
       @ ''them this feeling is temporary.''),
      (''angry'',
       ''The user is feeling angry. Validate that anger is a normal emotion. ''
       @ [NL]
       @ ''            Help them identify what triggered it. Suggest healthy ''
       @ ''ways to process these feelings.''),
      (''happy'',
       ''The user is feeling happy! Celebrate with them. Ask what contributed ''
       @ [NL] @ ''            to these positive feelings. Encourage them to savor ''
       @ ''this moment.''),
      (''fearful'',
       ''The user is feeling fearful. Provide reassurance. Help them '' @ ''feel ''
       @ [NL] @ ''            safe. Break down their fears into manageable pieces. ''
       @ ''Remind them of their strength.''),
      (''confused'',
       ''The user is feeling confused. Help them organize their thoughts. '' @ [NL]
       @ ''            Ask clarifying questions. Break things down step ''
       @ ''by step.''),
      (''neutral'',
       ''Engage warmly and naturally. Ask open-ended questions to understand ''
       @ [NL] @ ''            how they're really feeling.'')]"

text \<open>\<open>d.get(k, d["neutral"])\<close> on a table with string keys; every table it is used on
  has the key \<open>neutral\<close>; \<open>dflt\<close> stands for the entry of a table without it.\<close>

definition get_or_neutral :: "(string \<times> 'a) list \<Rightarrow> 'a \<Rightarrow> string \<Rightarrow> 'a" where
  "get_or_neutral table dflt k =
     (case map_of table k of
        Some v \<Rightarrow> v
      | None \<Rightarrow> (case map_of table ''neutral'' of Some v \<Rightarrow> v | None \<Rightarrow> dflt))"

definition get_emotion_context :: "string \<Rightarrow> string" where
  "get_emotion_context emotion = get_or_neutral emotion_guidance [] emotion"

text \<open>\<open>sep.join(parts)\<close>\<close>

fun join :: "string \<Rightarrow> string list \<Rightarrow> string" where
  "join sep [] = []"
| "join sep [p] = p"
| "join sep (p # q # ps) = p @ sep @ join sep (q # ps)"

text \<open>\<open>xs[i:]\<close> for an integer \<open>i\<close>: a negative index counts from the end, and
  \<open>xs[-0:]\<close> is \<open>xs[0:]\<close>, the whole list.\<close>

definition slice_from :: "'a list \<Rightarrow> int \<Rightarrow> 'a list" where
  "slice_from xs i =
     (if i < 0 then drop (nat (max 0 (int (length xs) + i))) xs else drop (nat i) xs)"

definition format_history :: "turn list \<Rightarrow> int \<Rightarrow> string" where
  "format_history history max_turns =
     (let recent_history =
            (if max_turns * 2 < int (length history)
             then slice_from history (- (max_turns * 2)) else history);
          formatted =
            map (\<lambda>msg. (if role msg = ''user'' then ''User'' else ''Assistant'')
                         @ '': '' @ take 200 (content msg))
              recent_history
      in join [NL] formatted)"

definition build_prompt :: "string \<Rightarrow> string \<Rightarrow> turn list \<Rightarrow> string" where
  "build_prompt user_message emotion conversation_history =
     (let emotion_context = get_emotion_context emotion;
          prompt_parts =
            [system_prompt,
             [NL] @ ''Current user emotion: '' @ emotion @ [NL] @ emotion_context]
            @ (if conversation_history \<noteq> []
               then [[NL] @ ''Conversation history:'' @ [NL]
                     @ format_history conversation_history 3]
               else [])
            @ [[NL] @ ''User: '' @ user_message @ [NL, NL]
               @ ''Respond with empathy and support:'']
      in join [NL] prompt_parts)"

section \<open>The generation client (backend/llm\_handler.py)\<close>

record llm_handler =
  api_key :: "string option"
  use_client :: bool
  current_model :: string

text \<open>\<open>LLMHandler(api_key)\<close>: the key given, or else the one of the environment;
  \<open>has_hf_client\<close> says whether the client library could be imported.\<close>

definition llm_handler_init :: "bool \<Rightarrow> string option \<Rightarrow> string option \<Rightarrow> llm_handler" where
  "llm_handler_init has_hf_client key env_key =
     (let k = (case key of Some (c # cs) \<Rightarrow> Some (c # cs) | _ \<Rightarrow> env_key);
          truthy = (case k of Some (c # cs) \<Rightarrow> True | _ \<Rightarrow> False)
      in \<lparr>api_key = k, use_client = (has_hf_client \<and> truthy),
          current_model = ''mistralai/Mistral-7B-Instruct-v0.1''\<rparr>)"

text \<open>\<open>rfind\<close> of one character: the index of its last occurrence, or \<open>-1\<close>.\<close>

fun rfind_from :: "char \<Rightarrow> string \<Rightarrow> int \<Rightarrow> int \<Rightarrow> int" where
  "rfind_from x [] i found = found"
| "rfind_from x (c # cs) i found = rfind_from x cs (i + 1) (if c = x then i else found)"

definition rfind :: "string \<Rightarrow> char \<Rightarrow> int" where
  "rfind s x = rfind_from x s 0 (- 1)"

definition clean_response :: "string \<Rightarrow> string" where
  "clean_response text0 =
     (let text = strip text0
      in if text \<noteq> [] \<and> last text \<notin> set ''.!?''
         then (let last_punct =
                     max (max (rfind text (CHR ''.'')) (rfind text (CHR ''!'')))
                       (rfind text (CHR ''?''))
               in if 0 < last_punct then take (nat (last_punct + 1)) text else text)
         else text)"

definition fallback_responses :: "(string \<times> string list) list" where
  "fallback_responses =
     [(''sad'',
       [''I hear you, and it's completely okay to feel this way right now.'',
        ''These difficult emotions are temporary, even though they feel heavy.'',
        ''You're stronger than you realize. Let's take this one moment at a time.'',
        ''What you're feeling is valid. Would it help to talk about what's troubling you?'',
        ''Sometimes we all need support. I'm here to listen without judgment.'']),
      (''anxious'',
       [''Anxiety can feel overwhelming, but remember: you've handled difficult moments before.'',
        ''Try this: breathe in for 4 counts, hold for 4, breathe out for 6. Let's slow things down.'',
        ''What's one small thing you could control right now? Sometimes focusing helps.'',
        ''Your worries are real, but not everything you worry about will happen.'',
        ''Grounding yourself might help. What's one thing you can see, hear, or feel right now?'']),
      (''angry'',
       [''Your anger is valid. Strong feelings mean something matters to you.'',
        ''Before acting on this feeling, pause. What do you really need right now?'',
        ''It's okay to be frustrated. Let's explore what's really bothering you.'',
        ''Anger often masks another emotion. Can you dig deeper into what you're feeling?'',
        ''Taking a break might help. What usually calms you down?'']),
      (''happy'',
       [''That's wonderful! I'm genuinely glad you're experiencing these positive feelings.'',
        ''This is beautiful to hear. What's making you feel so good right now?'',
        ''Let's celebrate this moment with you! What's contributing most?'',
        ''Savor this feeling! These good moments are important and worth recognizing.'',
        ''Your joy is contagious. Keep embracing these positive moments!'']),
      (''neutral'',
       [''I'm here and listening. What's on your mind today?'',
        ''How are you truly feeling beneath the surface?'',
        ''I'm interested in what you have to share. What brings you here?'',
        ''Take your time. I'm ready to listen to whatever you want to express.'',
        ''Tell me more. What would be most helpful to talk about right now?'']),
      (''fearful'',
       [''Fear is natural, but you're safe right now in this moment.'',
        ''What you're afraid of feels real, and that's okay. Let's face it together.'',
        ''You're braver than you believe. What specifically is scaring you?'',
        ''Fear often shrinks when we talk about it. I'm here to listen.'',
        ''Remember: you've overcome challenges before. This is just one more.''])]"

definition context_additions :: "(string \<times> string) list" where
  "context_additions =
     [(''sleep|tired|exhausted'',
       '' Getting quality sleep could really help you right now.''),
      (''work|job|boss|colleague'',
       '' Work stress is real. Remember, you deserve breaks and boundaries.''),
      (''relationship|friend|family|love'',
       '' Relationships matter. Communication is often the first step.''),
      (''health|sick|pain|hurt'',
       '' Your wellbeing is important. Take care of yourself first.''),
      (''money|financial|broke|debt'',
       '' Financial stress is significant. But you have more control than you think.''),
      (''future|tomorrow|worry|what if'',
       '' Focus on today. Tomorrow will take care of itself.'')]"

text \<open>\<open>s.split(sep)\<close> for a separator of one character\<close>

fun split_on :: "char \<Rightarrow> string \<Rightarrow> string list" where
  "split_on sep [] = [[]]"
| "split_on sep (c # cs) =
     (if c = sep then [] # split_on sep cs
      else (case split_on sep cs of w # ws \<Rightarrow> (c # w) # ws | [] \<Rightarrow> [[c]]))"

text \<open>The loop over \<open>context_additions.items()\<close>: the addition of the first group one of
  whose keywords occurs in the text, if there is one.\<close>

fun first_addition :: "(string \<times> string) list \<Rightarrow> string \<Rightarrow> string option" where
  "first_addition [] user_message_lower = None"
| "first_addition ((keywords, addition) # rest) user_message_lower =
     (if any_in (split_on (CHR ''|'') keywords) user_message_lower then Some addition
      else first_addition rest user_message_lower)"

text \<open>\<open>random.choice(responses)\<close> takes the element at an index drawn by the random
  generator; the draw is the argument \<open>rnd\<close>.\<close>

definition random_choice :: "nat \<Rightarrow> 'a list \<Rightarrow> 'a" where
  "random_choice rnd xs = xs ! (rnd mod length xs)"

definition fallback_response :: "nat \<Rightarrow> string \<Rightarrow> string \<Rightarrow> string" where
  "fallback_response rnd emotion user_message =
     (let responses = get_or_neutral fallback_responses [] emotion;
          base_response = random_choice rnd responses;
          user_message_lower = lower user_message
      in case first_addition context_additions user_message_lower of
           Some addition \<Rightarrow> rstrip_of (\<lambda>c. c \<in> set ''.!?'') base_response @ ''.'' @ addition
         | None \<Rightarrow> base_response)"

text \<open>
  A Python exception with its message \<open>str(e)\<close>. \<open>Exception\<close> stands for the exceptions
  that derive from the class \<open>Exception\<close>, which \<open>except Exception\<close> catches;
  \<open>Base_exception\<close> for those that derive from \<open>BaseException\<close> only
  (\<open>KeyboardInterrupt\<close>, \<open>SystemExit\<close>, \<open>GeneratorExit\<close>), which it does not catch.
\<close>

datatype py_exception = Exception string | Base_exception string

text \<open>
  The external generation service: \<open>client.text_generation\<close> on a prompt and a model
  either raises an exception or returns a text.
\<close>

type_synonym text_generation = "string \<Rightarrow> string \<Rightarrow> py_exception + string"

text \<open>
  The handler writes to the console: \<open>print\<close> writes a line to the standard output and
  \<open>traceback.print_exc()\<close> writes the trace of the exception being handled to the standard
  error. Either write succeeds (\<open>None\<close>) or raises an exception of its own, as \<open>print\<close>
  does when the encoding of the output cannot represent the line or the stream is closed.
\<close>

record console =
  print_line :: "string \<Rightarrow> py_exception option"
  print_exc :: "py_exception \<Rightarrow> py_exception option"

text \<open>\<open>generate_response(prompt, emotion)\<close>. The \<open>try\<close> block is a computation that may
  end in an exception. The handler of \<open>except Exception\<close> takes an exception that derives
  from \<open>Exception\<close>, prints the line \<open>LLM API Error: \<close> with its message, prints the
  trace and returns the fallback; an exception raised by one of the two writes leaves the
  handler and the function. Any other exception passes the handler by.\<close>

definition generate_response ::
  "llm_handler \<Rightarrow> text_generation \<Rightarrow> console \<Rightarrow> nat \<Rightarrow> string \<Rightarrow> string
     \<Rightarrow> py_exception + string" where
  "generate_response h client console rnd prompt emotion =
     (if api_key h = None \<or> api_key h = Some [] \<or> \<not> use_client h
      then Inr (fallback_response rnd emotion prompt)
      else (case (case client prompt (current_model h) of
                    Inl e \<Rightarrow> Inl e
                  | Inr response_text \<Rightarrow>
                      if response_text \<noteq> [] then Inr (clean_response response_text)
                      else Inr (fallback_response rnd emotion prompt)) of
              Inr r \<Rightarrow> Inr r
            | Inl (Exception msg) \<Rightarrow>
                (case print_line console (''LLM API Error: '' @ msg) of
                   Some e' \<Rightarrow> Inl e'
                 | None \<Rightarrow>
                     (case print_exc console (Exception msg) of
                        Some e' \<Rightarrow> Inl e'
                      | None \<Rightarrow> Inr (fallback_response rnd emotion prompt)))
            | Inl (Base_exception msg) \<Rightarrow> Inl (Base_exception msg)))"

section \<open>Output sanitising (backend/safety\_filter.py, \<open>sanitize_output\<close>)\<close>

text \<open>
  \<open>re.sub(pattern, repl, text)\<close> scans the text from left to right. At each position it
  tries to match the pattern; a match is replaced by \<open>repl\<close> and the scan goes on behind
  it, otherwise the character is kept. None of the three patterns matches the empty
  string. A matcher below gets the character before the position (\<open>\b\<close> needs it) and
  the text from the position on, and returns the length of the match that Python's
  backtracking search finds first.
\<close>

fun re_sub ::
  "(char option \<Rightarrow> string \<Rightarrow> nat option) \<Rightarrow> string \<Rightarrow> char option \<Rightarrow> string \<Rightarrow> string" where
  "re_sub m repl prev [] = []"
| "re_sub m repl prev (c # cs) =
     (case m prev (c # cs) of
        Some (Suc k) \<Rightarrow> repl @ re_sub m repl (Some ((c # cs) ! k)) (drop k cs)
      | _ \<Rightarrow> c # re_sub m repl (Some c) cs)"

definition is_digit :: "char \<Rightarrow> bool" where
  "is_digit c = (let n = (of_char c :: nat) in 48 \<le> n \<and> n \<le> 57)"

definition is_alpha :: "char \<Rightarrow> bool" where
  "is_alpha c = (let n = (of_char c :: nat) in (65 \<le> n \<and> n \<le> 90) \<or> (97 \<le> n \<and> n \<le> 122))"

text \<open>\<open>\w\<close>, and \<open>\b\<close> between two neighbours, of which one may be missing at an end
  of the text\<close>

definition is_word :: "char \<Rightarrow> bool" where
  "is_word c = (is_alpha c \<or> is_digit c \<or> c = CHR ''_'')"

definition word_boundary :: "char option \<Rightarrow> char option \<Rightarrow> bool" where
  "word_boundary a b =
     ((case a of Some c \<Rightarrow> is_word c | None \<Rightarrow> False)
      \<noteq> (case b of Some c \<Rightarrow> is_word c | None \<Rightarrow> False))"

definition nth_opt :: "'a list \<Rightarrow> nat \<Rightarrow> 'a option" where
  "nth_opt xs i = (if i < length xs then Some (xs ! i) else None)"

subsection \<open>URLs\<close>

text \<open>
  \<^verbatim>\<open>http[s]?://(?:[a-zA-Z]|[0-9]|[$-_@.&+]|[!*\\(\\),]|(?:%[0-9a-fA-F][0-9a-fA-F]))+\<close>

  The class \<open>[$-_@.&+]\<close> holds the range from \<open>$\<close> (36) to \<open>_\<close> (95). The percent sign
  (37) lies in it, so the last alternative, a percent sign with two hexadecimal digits,
  is never the one taken: the repetition takes one character of the first four classes
  at a time, as many as there are. Behind \<open>http\<close> an \<open>s\<close> is taken when there is one;
  giving it back would leave \<open>://\<close> to match at the \<open>s\<close>.
\<close>

definition url_char :: "char \<Rightarrow> bool" where
  "url_char c =
     (is_alpha c \<or> is_digit c
      \<or> (let n = (of_char c :: nat) in 36 \<le> n \<and> n \<le> 95) \<or> c \<in> set ''@.&+''
      \<or> c \<in> set [CHR ''!'', CHR ''*'', CHR 0x5C, CHR ''('', CHR '')'', CHR '',''])"

definition match_url :: "string \<Rightarrow> nat option" where
  "match_url s =
     (if prefix ''http'' s
      then (let r = drop 4 s;
                n = (case r of c # _ \<Rightarrow> if c = CHR ''s'' then 5 else 4 | [] \<Rightarrow> 4);
                r1 = drop n s
            in if prefix ''://'' r1
               then (let body = takeWhile url_char (drop 3 r1)
                     in if body = [] then None else Some (n + 3 + length body))
               else None)
      else None)"

subsection \<open>Email addresses\<close>

text \<open>
  \<^verbatim>\<open>\b[A-Za-z0-9._%+-]+@[A-Za-z0-9.-]+\.[A-Z|a-z]{2,}\b\<close>

  The local part is the whole run of its class, since \<open>@\<close> must follow and is not in the
  class. The domain is tried from its longest run down to one character; behind it comes
  a dot, which is a character of the run. The last part is tried from its longest run
  (letters and the bar) down to two characters, and the match ends at a word boundary.
\<close>

definition local_char :: "char \<Rightarrow> bool" where
  "local_char c = (is_alpha c \<or> is_digit c \<or> c \<in> set ''._%+-'')"

definition domain_char :: "char \<Rightarrow> bool" where
  "domain_char c = (is_alpha c \<or> is_digit c \<or> c \<in> set ''.-'')"

definition tld_char :: "char \<Rightarrow> bool" where
  "tld_char c = (is_alpha c \<or> c = CHR ''|'')"

text \<open>The ends of the address behind \<open>@\<close>, in the order of the search: \<open>j\<close> characters of
  domain, the dot, \<open>t\<close> characters of the last part.\<close>

definition email_tails :: "string \<Rightarrow> (nat \<times> nat) list" where
  "email_tails r =
     (let dom = takeWhile domain_char r
      in concat
           (map (\<lambda>j. if r ! j = CHR ''.''
                      then map (\<lambda>t. (j, t))
                             (filter (\<lambda>t. word_boundary (nth_opt r (j + t)) (nth_opt r (j + t + 1)))
                                (rev [2..<Suc (length (takeWhile tld_char (drop (Suc j) r)))]))
                      else [])
              (rev [1..<length dom])))"

definition match_email :: "char option \<Rightarrow> string \<Rightarrow> nat option" where
  "match_email prev s =
     (let loc = takeWhile local_char s
      in if \<not> word_boundary prev (nth_opt s 0) \<or> loc = [] then None
         else (case drop (length loc) s of
                 c # r \<Rightarrow>
                   if c = CHR ''@''
                   then (case email_tails r of
                           (j, t) # _ \<Rightarrow> Some (length loc + 1 + j + 1 + t)
                         | [] \<Rightarrow> None)
                   else None
               | [] \<Rightarrow> None))"

subsection \<open>Phone numbers\<close>

text \<open>
  \<^verbatim>\<open>(\+\d{1,3}[-.\s]?)?\(?\d{3}\)?[-.\s]?\d{3}[-.\s]?\d{4}\<close>

  An optional character is taken when it is there: the pattern goes on with a digit, so
  giving the character back never helps. The country code behind \<open>+\<close> is tried with
  three digits, then two, then one; a text that starts with \<open>+\<close> cannot match without
  the group.
\<close>

definition is_sep :: "char \<Rightarrow> bool" where
  "is_sep c = (c = CHR ''-'' \<or> c = CHR ''.'' \<or> is_space c)"

text \<open>\<open>x?\<close> for one character: the number of characters taken\<close>

definition opt_char :: "(char \<Rightarrow> bool) \<Rightarrow> string \<Rightarrow> nat" where
  "opt_char P s = (case s of c # _ \<Rightarrow> if P c then 1 else 0 | [] \<Rightarrow> 0)"

text \<open>\<open>\d{n}\<close>\<close>

definition digits :: "nat \<Rightarrow> string \<Rightarrow> bool" where
  "digits n s = (n \<le> length s \<and> list_all is_digit (take n s))"

definition phone_rest :: "string \<Rightarrow> nat option" where
  "phone_rest s =
     (let n1 = opt_char (\<lambda>c. c = CHR ''('') s
      in if \<not> digits 3 (drop n1 s) then None
         else (let n2 = n1 + 3;
                   n3 = n2 + opt_char (\<lambda>c. c = CHR '')'') (drop n2 s);
                   n4 = n3 + opt_char is_sep (drop n3 s)
               in if \<not> digits 3 (drop n4 s) then None
                  else (let n5 = n4 + 3;
                            n6 = n5 + opt_char is_sep (drop n5 s)
                        in if digits 4 (drop n6 s) then Some (n6 + 4) else None)))"

definition phone_with_code :: "nat \<Rightarrow> string \<Rightarrow> nat option" where
  "phone_with_code d r =
     (if digits d r
      then (let n = d + opt_char is_sep (drop d r)
            in case phone_rest (drop n r) of Some k \<Rightarrow> Some (1 + n + k) | None \<Rightarrow> None)
      else None)"

definition match_phone :: "string \<Rightarrow> nat option" where
  "match_phone s =
     (case s of
        [] \<Rightarrow> None
      | c # r \<Rightarrow>
          if c = CHR ''+''
          then (case phone_with_code 3 r of
                  Some k \<Rightarrow> Some k
                | None \<Rightarrow>
                    (case phone_with_code 2 r of
                       Some k \<Rightarrow> Some k
                     | None \<Rightarrow> phone_with_code 1 r))
          else phone_rest s)"

definition sanitize_output :: "string \<Rightarrow> string" where
  "sanitize_output text0 =
     (let text1 = re_sub (\<lambda>prev. match_url) ''[link removed]'' None text0;
          text2 = re_sub match_email ''[email removed]'' None text1;
          text3 = re_sub (\<lambda>prev. match_phone) ''[phone removed]'' None text2
      in text3)"

section \<open>The response generator (backend/response\_generator.py)\<close>

datatype py_value = PBool bool | PStr string | PInt int

text \<open>The reply of \<open>generate\<close>. The keys \<open>sentiment\<close> and \<open>intensity\<close> of the source are
  the fields \<open>reply_sentiment\<close> and \<open>reply_intensity\<close>; a response is \<open>None\<close> where
  Python would pass \<open>None\<close> on.\<close>

record reply =
  response :: "string option"
  emotion :: string
  emotion_confidence :: rat
  reply_sentiment :: string
  reply_intensity :: string
  emoji :: string
  color :: string
  is_safe :: bool
  metadata :: "string \<rightharpoonup> py_value"

text \<open>The argument \<open>emotion_data\<close> of \<open>_create_response_object\<close> is a dictionary that may
  lack keys, read with \<open>.get(key, default)\<close>: each key it reads is an optional field.\<close>

record emotion_dict =
  get_primary_emotion :: "string option"
  get_confidence :: "rat option"
  get_sentiment :: "string option"
  get_intensity :: "string option"

definition dict_of :: "emotion_data \<Rightarrow> emotion_dict" where
  "dict_of d =
     \<lparr>get_primary_emotion = Some (primary_emotion d), get_confidence = Some (confidence d),
      get_sentiment = Some (sentiment d), get_intensity = Some (intensity d)\<rparr>"

definition create_response_object ::
  "string option \<Rightarrow> emotion_dict \<Rightarrow> bool \<Rightarrow> (string \<rightharpoonup> py_value) \<Rightarrow> reply" where
  "create_response_object resp emotion_data safe meta =
     (let e = (case get_primary_emotion emotion_data of Some e \<Rightarrow> e | None \<Rightarrow> ''neutral'')
      in \<lparr>response = resp,
          emotion = e,
          emotion_confidence = (case get_confidence emotion_data of Some c \<Rightarrow> c | None \<Rightarrow> 1 / 2),
          reply_sentiment = (case get_sentiment emotion_data of Some x \<Rightarrow> x | None \<Rightarrow> ''neutral''),
          reply_intensity = (case get_intensity emotion_data of Some x \<Rightarrow> x | None \<Rightarrow> ''medium''),
          emoji = get_emotion_emoji e,
          color = get_emotion_color e,
          is_safe = safe,
          metadata = meta\<rparr>)"

text \<open>
  The state of a \<open>ResponseGenerator\<close>: its generation client and its conversation
  history. The field \<open>invoked\<close> is not in the source: it records, in order, the components
  that the calls of \<open>generate\<close> have run, so that a statement on which components a call
  reaches has something to speak about. The generation client stands for both of its
  ways to answer, the external service and the canned fallback.
\<close>

datatype component =
  Input_validation | Crisis_check | Emotion_classifier | Prompt_builder
  | Generation_client | Response_filter | Output_sanitizer | History_update

record response_generator =
  llm :: llm_handler
  conversation_history :: "turn list"
  invoked :: "component list"

definition run :: "component \<Rightarrow> response_generator \<Rightarrow> response_generator" where
  "run c self = self\<lparr>invoked := invoked self @ [c]\<rparr>"

definition update_history ::
  "response_generator \<Rightarrow> string \<Rightarrow> string \<Rightarrow> int \<Rightarrow> response_generator" where
  "update_history self user_msg bot_msg max_history =
     (let h = conversation_history self
                @ [\<lparr>role = ''user'', content = user_msg\<rparr>,
                   \<lparr>role = ''assistant'', content = bot_msg\<rparr>]
      in self\<lparr>conversation_history :=
                 (if max_history * 2 < int (length h)
                  then slice_from h (- (max_history * 2)) else h)\<rparr>)"

definition generate ::
  "sentiment_scorer \<Rightarrow> text_generation \<Rightarrow> console \<Rightarrow> nat \<Rightarrow> response_generator \<Rightarrow> string
     \<Rightarrow> turn list option \<Rightarrow> py_exception + reply \<times> response_generator" where
  "generate scorer client console rnd self user_message conversation_context =
     (let validation = validate_user_input user_message;
          self1 = run Input_validation self
      in if \<not> valid validation
         then Inr (create_response_object (suggestion validation)
                     \<lparr>get_primary_emotion = Some ''neutral'', get_confidence = Some 1,
                      get_sentiment = None, get_intensity = None\<rparr>
                     True [''validation_failed'' \<mapsto> PBool True],
                   self1)
         else
           (let crisis = check_crisis user_message;
                self2 = run Crisis_check self1
            in if is_crisis crisis
               then Inr (create_response_object (message crisis)
                           \<lparr>get_primary_emotion = Some ''fearful'', get_confidence = Some 1,
                            get_sentiment = None, get_intensity = None\<rparr>
                           True [''is_crisis'' \<mapsto> PBool True],
                         self2)
               else
                 (let emotion_data = detect_emotion scorer user_message;
                      self3 = run Emotion_classifier self2;
                      prompt = build_prompt user_message (primary_emotion emotion_data)
                                 (case conversation_context of
                                    Some (t # ts) \<Rightarrow> t # ts
                                  | _ \<Rightarrow> conversation_history self);
                      self4 = run Prompt_builder self3
                  in case generate_response (llm self) client console rnd prompt
                            (primary_emotion emotion_data) of
                       Inl e \<Rightarrow> Inl e
                     | Inr raw_response \<Rightarrow>
                         (let self5 = run Generation_client self4;
                              (filtered_response, safe) = filter_response raw_response user_message;
                              self6 = run Response_filter self5;
                              final_response = sanitize_output filtered_response;
                              self7 = run Output_sanitizer self6;
                              self8 = run History_update
                                        (update_history self7 user_message final_response 10)
                          in Inr (create_response_object (Some final_response)
                                    (dict_of emotion_data) safe
                                    [''model_used'' \<mapsto> PStr (current_model (llm self)),
                                     ''prompt_length'' \<mapsto> PInt (int (length prompt))],
                                  self8)))))"

section \<open>Configurations used in the examples\<close>

text \<open>A generator without an API key and without the client library, as
  \<open>ResponseGenerator()\<close> builds it when neither is there; a handler and a generator with
  both; services that raise on every call (a connection error, an error with a message
  beyond ASCII, a keyboard interrupt), one that returns the empty text and one that
  returns a sentence; a console that takes every line, and one whose encoding is ASCII.\<close>

definition fresh_generator :: response_generator where
  "fresh_generator =
     \<lparr>llm = llm_handler_init False None None, conversation_history = [], invoked = []\<rparr>"

definition keyed_handler :: llm_handler where
  "keyed_handler = llm_handler_init True (Some ''hf_key'') None"

definition failing_service :: text_generation where
  "failing_service prompt model = Inl (Exception ''connection refused'')"

definition silent_service :: text_generation where
  "silent_service prompt model = Inr []"

definition keyed_generator :: response_generator where
  "keyed_generator = \<lparr>llm = keyed_handler, conversation_history = [], invoked = []\<rparr>"



definition steady_service :: text_generation where
  "steady_service prompt model = Inr ''I hear you.''"

definition quiet_console :: console where
  "quiet_console = \<lparr>print_line = (\<lambda>line. None), print_exc = (\<lambda>e. None)\<rparr>"

definition ascii_console :: console where
  "ascii_console =
     \<lparr>print_line = (\<lambda>line. if list_all (\<lambda>c. (of_char c :: nat) < 128) line then None
                           else Some (Exception ''UnicodeEncodeError'')),
      print_exc = (\<lambda>e. None)\<rparr>"

text \<open>A run of calls of \<open>_update_history\<close> with the same \<open>max_history\<close>, one for each pair
  of a user message and a reply, and the turns that the pairs make.\<close>

fun update_all :: "response_generator \<Rightarrow> (string \<times> string) list \<Rightarrow> int \<Rightarrow> response_generator" where
  "update_all self [] max_history = self"
| "update_all self ((user_msg, bot_msg) # pairs) max_history =
     update_all (update_history self user_msg bot_msg max_history) pairs max_history"

fun turns_of :: "(string \<times> string) list \<Rightarrow> turn list" where
  "turns_of [] = []"
| "turns_of ((user_msg, bot_msg) # pairs) =
     \<lparr>role = ''user'', content = user_msg\<rparr> # \<lparr>role = ''assistant'', content = bot_msg\<rparr>
     # turns_of pairs"

text \<open>A reply of the crisis branch: flagged \<open>is_crisis\<close>, with the fixed crisis message
  as its response.\<close>

definition is_crisis_reply :: "py_exception + reply \<times> response_generator \<Rightarrow> bool" where
  "is_crisis_reply out =
     (case out of
        Inr (r, self') \<Rightarrow>
          metadata r ''is_crisis'' = Some (PBool True) \<and> response r = Some get_crisis_response
      | Inl e \<Rightarrow> False)"

section \<open>Substrings\<close>

text \<open>The test \<open>k in s\<close> of the model is the substring relation of the library.\<close>

lemma py_in_sublist: "py_in k s \<longleftrightarrow> sublist k s"
  by (induction s) (simp_all add: sublist_Cons_right)

lemma any_in_sublist: "any_in ks s \<longleftrightarrow> (\<exists>k \<in> set ks. sublist k s)"
  by (simp add: any_in_def list_ex_iff py_in_sublist)

section \<open>Moderation of a candidate response\<close>

lemma you_have_found: "py_in ''you have'' (lower ''You have depression and need medication'')"
  by code_simp
lemma hear_you_clean: "\<not> any_in (medical_keywords @ prohibited_phrases) (lower ''I hear you.'')"
  by code_simp
lemma hear_you_no_topic: "\<not> is_mental_health_topic (lower ''I hear you.'')"
  by code_simp

text \<open>
  C4: a candidate response whose lower-cased text contains a medical keyword or a
  prohibited phrase is discarded: \<open>filter_response\<close> returns the fixed safe alternative
  and \<open>is_safe = False\<close>. A candidate that contains none of them is returned with
  \<open>is_safe = True\<close>, as it is or with the disclaimer appended.
\<close>

theorem filter_response_discards_medical:
  "((\<exists>k \<in> set medical_keywords \<union> set prohibited_phrases. sublist k (lower candidate))
      \<longrightarrow> filter_response candidate user_message = (get_safe_alternative, False))
   \<and> (\<not> (\<exists>k \<in> set medical_keywords \<union> set prohibited_phrases. sublist k (lower candidate))
      \<longrightarrow> filter_response candidate user_message = (candidate, True)
          \<or> filter_response candidate user_message = (candidate @ disclaimer, True))"
  by (auto simp: filter_response_def any_in_sublist add_disclaimer_def Let_def)

theorem filter_response_discards_medical_witness:
  "filter_response ''You have depression and need medication'' ''I feel bad'' = (get_safe_alternative, False)
   \<and> filter_response ''I hear you.'' ''I feel bad'' = (''I hear you.'', True)"
proof -
  have "''you have'' \<in> set medical_keywords \<union> set prohibited_phrases"
    by (simp add: prohibited_phrases_def)
  moreover have "sublist ''you have'' (lower ''You have depression and need medication'')"
    using you_have_found by (simp only: py_in_sublist)
  ultimately have h1: "\<exists>k \<in> set medical_keywords \<union> set prohibited_phrases.
      sublist k (lower ''You have depression and need medication'')"
    by blast
  have h2: "\<not> (\<exists>k \<in> set medical_keywords \<union> set prohibited_phrases. sublist k (lower ''I hear you.''))"
    using hear_you_clean by (simp add: any_in_sublist)
  have "filter_response ''I hear you.'' ''I feel bad'' \<noteq> (''I hear you.'' @ disclaimer, True)"
    using hear_you_no_topic hear_you_clean by (simp add: filter_response_def any_in_def disclaimer_def)
  with h1 h2 filter_response_discards_medical [of "''You have depression and need medication''" "''I feel bad''"]
    filter_response_discards_medical [of "''I hear you.''" "''I feel bad''"]
  show ?thesis by blast
qed

section \<open>The fallback pools\<close>

lemma get_or_neutral_missing:
  "k \<notin> set (map fst table) \<Longrightarrow> get_or_neutral table d k = get_or_neutral table d ''neutral''"
  by (simp add: get_or_neutral_def map_of_eq_None_iff [THEN iffD2] split: option.splits)

lemma confused_detected: "primary_emotion (detect_emotion None ''I am confused'') = ''confused''"
  by code_simp

lemma neutral_first: "fallback_response 0 ''neutral'' ''hi'' = ''I'm here and listening. What's on your mind today?''"
  by code_simp

text \<open>
  C10: the fallback pools are those of \<open>sad\<close>, \<open>anxious\<close>, \<open>angry\<close>, \<open>happy\<close>, \<open>neutral\<close>
  and \<open>fearful\<close>. For an emotion without a pool of its own the fallback response is
  drawn from the pool of \<open>neutral\<close>: it is the response that \<open>neutral\<close> gets on the same
  draw and message. \<open>confused\<close> is such an emotion, although it has a keyword set and a
  prompt template and the classifier does produce it.
\<close>

theorem fallback_pool_of_other_emotions:
  "map fst fallback_responses = [''sad'', ''anxious'', ''angry'', ''happy'', ''neutral'', ''fearful'']
   \<and> (label \<notin> set (map fst fallback_responses) \<longrightarrow>
        map_of fallback_responses ''neutral'' = Some (get_or_neutral fallback_responses [] label)
        \<and> fallback_response rnd label user_message = fallback_response rnd ''neutral'' user_message)
   \<and> ''confused'' \<notin> set (map fst fallback_responses)
   \<and> ''confused'' \<in> set (map fst emotion_keywords)
   \<and> ''confused'' \<in> set (map fst emotion_guidance)
   \<and> primary_emotion (detect_emotion None ''I am confused'') = ''confused''"
proof -
  have a: "map fst fallback_responses = [''sad'', ''anxious'', ''angry'', ''happy'', ''neutral'', ''fearful'']"
    by (simp add: fallback_responses_def)
  have b: "fallback_response rnd label user_message = fallback_response rnd ''neutral'' user_message"
    if "label \<notin> set (map fst fallback_responses)"
    using get_or_neutral_missing [OF that] by (simp add: fallback_response_def)
  have c: "map_of fallback_responses ''neutral'' = Some (get_or_neutral fallback_responses [] label)"
    if "label \<notin> set (map fst fallback_responses)"
    using get_or_neutral_missing [OF that, of "[]"]
    by (simp add: get_or_neutral_def fallback_responses_def)
  have d: "''confused'' \<in> set (map fst emotion_keywords)" "''confused'' \<in> set (map fst emotion_guidance)"
    by (simp_all add: emotion_keywords_def emotion_guidance_def)
  have e: "''confused'' \<notin> set (map fst fallback_responses)"
    by (simp add: a)
  from a b c d e confused_detected show ?thesis by blast
qed

theorem fallback_pool_of_other_emotions_witness:
  "''confused'' \<notin> set (map fst fallback_responses)
   \<and> fallback_response 0 ''confused'' ''hi'' = ''I'm here and listening. What's on your mind today?''"
  using fallback_pool_of_other_emotions [of "''confused''" 0 "''hi''"] neutral_first by simp

section \<open>The orchestration of \<open>generate\<close>\<close>

lemma check_crisis_sublist:
  "is_crisis (check_crisis text) \<longleftrightarrow> (\<exists>k \<in> set crisis_keywords. sublist k (lower text))"
  by (simp add: check_crisis_def any_in_sublist Let_def)

lemma check_crisis_message:
  "is_crisis (check_crisis text) \<Longrightarrow> message (check_crisis text) = Some get_crisis_response"
  by (simp add: check_crisis_def Let_def split: if_splits)

lemma create_response_object_sel [simp]:
  "response (create_response_object r d s m) = r"
  "metadata (create_response_object r d s m) = m"
  "is_safe (create_response_object r d s m) = s"
  "emotion (create_response_object r d s m)
     = (case get_primary_emotion d of Some e \<Rightarrow> e | None \<Rightarrow> ''neutral'')"
  "emotion_confidence (create_response_object r d s m)
     = (case get_confidence d of Some c \<Rightarrow> c | None \<Rightarrow> 1 / 2)"
  by (simp_all add: create_response_object_def Let_def)

lemma generate_invalid:
  "\<not> valid (validate_user_input text) \<Longrightarrow>
   generate scorer client console rnd self text ctx =
     Inr (create_response_object (suggestion (validate_user_input text))
            \<lparr>get_primary_emotion = Some ''neutral'', get_confidence = Some 1,
             get_sentiment = None, get_intensity = None\<rparr>
            True [''validation_failed'' \<mapsto> PBool True],
          run Input_validation self)"
  by (simp add: generate_def Let_def)

lemma generate_crisis:
  "valid (validate_user_input text) \<Longrightarrow> is_crisis (check_crisis text) \<Longrightarrow>
   generate scorer client console rnd self text ctx =
     Inr (create_response_object (Some get_crisis_response)
            \<lparr>get_primary_emotion = Some ''fearful'', get_confidence = Some 1,
             get_sentiment = None, get_intensity = None\<rparr>
            True [''is_crisis'' \<mapsto> PBool True],
          run Crisis_check (run Input_validation self))"
  by (simp add: generate_def Let_def check_crisis_message)


lemma generate_continues:
  assumes "valid (validate_user_input text)" and "\<not> is_crisis (check_crisis text)"
  shows "generate scorer client console rnd self text ctx =
           (case generate_response (llm self) client console rnd
                   (build_prompt text (primary_emotion (detect_emotion scorer text))
                      (case ctx of Some (t # ts) \<Rightarrow> t # ts | _ \<Rightarrow> conversation_history self))
                   (primary_emotion (detect_emotion scorer text)) of
              Inl e \<Rightarrow> Inl e
            | Inr raw \<Rightarrow>
                Inr (create_response_object
                       (Some (sanitize_output (fst (filter_response raw text))))
                       (dict_of (detect_emotion scorer text))
                       (snd (filter_response raw text))
                       [''model_used'' \<mapsto> PStr (current_model (llm self)),
                        ''prompt_length'' \<mapsto> PInt (int (length
                           (build_prompt text (primary_emotion (detect_emotion scorer text))
                              (case ctx of Some (t # ts) \<Rightarrow> t # ts
                               | _ \<Rightarrow> conversation_history self))))],
                     run History_update
                       (update_history
                          (run Output_sanitizer (run Response_filter (run Generation_client
                             (run Prompt_builder (run Emotion_classifier (run Crisis_check
                                (run Input_validation self)))))))
                          text (sanitize_output (fst (filter_response raw text))) 10)))"
  using assms by (simp add: generate_def Let_def split: sum.splits prod.splits)


lemmas validate_eval = validate_user_input_def strip_def rstrip_of_def is_space_def
  float_mul_07_def round_to_53_bits_def bit_length.simps
lemma kill_valid: "valid (validate_user_input ''I want to kill myself'')"
  by (simp add: validate_eval)
lemma kill_crisis: "is_crisis (check_crisis ''I want to kill myself'')"
  by code_simp
lemma ddie_invalid: "validate_user_input ''ddddddie'' = \<lparr>valid = False, reason = ''gibberish'',
                suggestion = Some ''I'm having trouble understanding. Could you rephrase that?''\<rparr>"
  by (simp add: validate_eval)
lemma ddie_crisis: "py_in ''die'' (lower ''ddddddie'')"
  by code_simp

text \<open>
  C1 (as the code has it): validation runs before the crisis check. For every text that
  passes validation and whose lower-cased form contains a crisis keyword, \<open>generate\<close>
  returns a reply flagged \<open>is_crisis\<close> whose response is the fixed crisis message,
  whatever the sentiment scorer, the generation service, the random draw, the state of
  the generator and the supplied context are.
\<close>

theorem crisis_keyword_in_valid_text:
  assumes "valid (validate_user_input text)"
    and "\<exists>k \<in> set crisis_keywords. sublist k (lower text)"
  shows "is_crisis_reply (generate scorer client console rnd self text ctx)"
  using assms
  by (simp add: generate_crisis check_crisis_sublist is_crisis_reply_def)

theorem crisis_keyword_in_valid_text_witness:
  "is_crisis_reply (generate None failing_service quiet_console 0 fresh_generator ''I want to kill myself'' None)"
  using crisis_keyword_in_valid_text [OF kill_valid, of None failing_service quiet_console 0 fresh_generator None]
    kill_crisis
  by (simp add: check_crisis_sublist)

text \<open>
  C1 as it is stated fails: \<open>ddddddie\<close> contains the crisis keyword \<open>die\<close>, but its first
  character makes up six of its eight characters, so validation rejects it as gibberish
  and \<open>generate\<close> returns the validation reply, not the crisis reply.
\<close>

theorem crisis_keyword_in_gibberish_counterexample:
  "''die'' \<in> set crisis_keywords \<and> sublist ''die'' (lower ''ddddddie'')
   \<and> \<not> is_crisis_reply (generate None failing_service quiet_console 0 fresh_generator ''ddddddie'' None)
   \<and> generate None failing_service quiet_console 0 fresh_generator ''ddddddie'' None =
       Inr (create_response_object
              (Some ''I'm having trouble understanding. Could you rephrase that?'')
              \<lparr>get_primary_emotion = Some ''neutral'', get_confidence = Some 1,
               get_sentiment = None, get_intensity = None\<rparr>
              True [''validation_failed'' \<mapsto> PBool True],
            run Input_validation fresh_generator)"
proof -
  have a: "''die'' \<in> set crisis_keywords" by (simp add: crisis_keywords_def)
  have b: "sublist ''die'' (lower ''ddddddie'')" using ddie_crisis by (simp only: py_in_sublist)
  have c: "\<not> valid (validate_user_input ''ddddddie'')" by (simp add: ddie_invalid)
  have d: "generate None failing_service quiet_console 0 fresh_generator ''ddddddie'' None =
       Inr (create_response_object
              (Some ''I'm having trouble understanding. Could you rephrase that?'')
              \<lparr>get_primary_emotion = Some ''neutral'', get_confidence = Some 1,
               get_sentiment = None, get_intensity = None\<rparr>
              True [''validation_failed'' \<mapsto> PBool True],
            run Input_validation fresh_generator)"
    using generate_invalid [OF c] by (simp add: ddie_invalid)
  have e: "\<not> is_crisis_reply (generate None failing_service quiet_console 0 fresh_generator ''ddddddie'' None)"
    unfolding d by (simp add: is_crisis_reply_def)
  from a b d e show ?thesis by blast
qed

text \<open>
  C2: when a message passes validation and \<open>check_crisis\<close> reports a crisis, \<open>generate\<close>
  ends on the crisis branch. The reply has the emotion \<open>fearful\<close> with confidence 1 and
  the fixed crisis message as its response; the call has run input validation and the
  crisis check and no other component, so neither the emotion classifier nor the prompt
  builder nor the generation client; the history is unchanged; and the outcome is the
  same for any other sentiment scorer, generation service, console and random draw.
\<close>

theorem crisis_branch_is_terminal:
  assumes "valid (validate_user_input text)" and "is_crisis (check_crisis text)"
  shows "\<exists>r self'. generate scorer client console rnd self text ctx = Inr (r, self')
           \<and> emotion r = ''fearful'' \<and> emotion_confidence r = 1
           \<and> response r = Some get_crisis_response
           \<and> metadata r ''is_crisis'' = Some (PBool True)
           \<and> invoked self' = invoked self @ [Input_validation, Crisis_check]
           \<and> conversation_history self' = conversation_history self
           \<and> generate scorer' client' console' rnd' self text ctx = Inr (r, self')"
  using assms
  by (simp add: generate_crisis run_def)

theorem crisis_branch_is_terminal_witness:
  "\<exists>r self'. generate None failing_service quiet_console 0 fresh_generator ''I want to kill myself'' None = Inr (r, self')
           \<and> emotion r = ''fearful'' \<and> emotion_confidence r = 1
           \<and> response r = Some get_crisis_response
           \<and> metadata r ''is_crisis'' = Some (PBool True)
           \<and> invoked self' = [Input_validation, Crisis_check]
           \<and> conversation_history self' = []
           \<and> generate None silent_service ascii_console 7 fresh_generator ''I want to kill myself'' None = Inr (r, self')"
  using crisis_branch_is_terminal [OF kill_valid kill_crisis, of None failing_service quiet_console 0
      fresh_generator None None silent_service ascii_console 7]
  by (simp add: fresh_generator_def)




lemma keyed_handler_sel:
  "api_key keyed_handler = Some ''hf_key''" "use_client keyed_handler"
  "llm keyed_generator = keyed_handler"
  by (simp_all add: keyed_handler_def keyed_generator_def llm_handler_init_def)






section \<open>The contextual addendum of the fallback\<close>

lemma lower_append: "lower (a @ b) = lower a @ lower b"
  by (simp add: lower_def)

lemma py_in_append: "py_in k a \<Longrightarrow> py_in k (a @ b)"
  unfolding py_in_sublist sublist_def by (metis append.assoc)

lemma build_prompt_starts: "\<exists>rest. build_prompt user_message label history = system_prompt @ rest"
  by (simp add: build_prompt_def Let_def)

lemma health_in_system_prompt: "py_in ''health'' (lower system_prompt)"
  by (simp add: system_prompt_def lower_def lower_char_def is_upper_def)

lemma health_in_prompt: "py_in ''health'' (lower (build_prompt user_message label history))"
proof -
  obtain rest where "build_prompt user_message label history = system_prompt @ rest"
    using build_prompt_starts by blast
  then show ?thesis
    by (simp add: lower_append py_in_append health_in_system_prompt)
qed

lemma first_addition_health:
  "py_in ''health'' s \<Longrightarrow> \<exists>addition. first_addition context_additions s = Some addition"
  by (simp add: context_additions_def any_in_def)

lemma hello_no_topic: "first_addition context_additions (lower ''hello there'') = None"
  by code_simp

lemma fresh_generator_fallback:
  "generate_response (llm fresh_generator) client console rnd prompt label
     = Inr (fallback_response rnd label prompt)"
  by (simp add: generate_response_def fresh_generator_def llm_handler_init_def)

text \<open>
  C5 (what the code does): \<open>generate_response\<close> passes the composed prompt, not the user
  message, to \<open>_fallback_response\<close>. The prompt starts with the system prompt, which
  contains the word \<open>healthy\<close>, so a keyword of the group \<open>health|sick|pain|hurt\<close> is in
  every prompt. The message \<open>hello there\<close> contains no topic keyword, and the fallback on
  the message itself appends nothing; yet for every message, emotion and history a topic
  group matches the prompt, and in fallback mode the generation client returns a canned
  reply with an addendum appended.
\<close>

theorem fallback_addendum_follows_prompt:
  "first_addition context_additions (lower ''hello there'') = None
   \<and> fallback_response rnd label ''hello there''
       = random_choice rnd (get_or_neutral fallback_responses [] label)
   \<and> (\<exists>addition.
         first_addition context_additions (lower (build_prompt user_message label history))
           = Some addition)
   \<and> (\<exists>addition.
         generate_response (llm fresh_generator) client console rnd
             (build_prompt ''hello there'' label history) label
           = Inr (rstrip_of (\<lambda>c. c \<in> set ''.!?'')
                    (random_choice rnd (get_or_neutral fallback_responses [] label))
                  @ ''.'' @ addition))"
proof -
  have a: "fallback_response rnd label ''hello there''
       = random_choice rnd (get_or_neutral fallback_responses [] label)"
    by (simp add: fallback_response_def Let_def hello_no_topic)
  have b: "\<exists>addition.
         first_addition context_additions (lower (build_prompt m label history)) = Some addition" for m
    using first_addition_health [OF health_in_prompt] .
  obtain addition where
    "first_addition context_additions (lower (build_prompt ''hello there'' label history)) = Some addition"
    using b by blast
  then have c: "generate_response (llm fresh_generator) client console rnd
             (build_prompt ''hello there'' label history) label
           = Inr (rstrip_of (\<lambda>c. c \<in> set ''.!?'')
                    (random_choice rnd (get_or_neutral fallback_responses [] label))
                  @ ''.'' @ addition)"
    by (simp add: fresh_generator_fallback fallback_response_def Let_def)
  from a b c hello_no_topic show ?thesis by blast
qed

section \<open>The intensity of an utterance\<close>

lemma is_upper_lower_char: "\<not> is_upper (lower_char c)"
proof (cases c)
  case (Char b0 b1 b2 b3 b4 b5 b6 b7)
  then show ?thesis
    by (auto simp: lower_char_def is_upper_def)
qed

lemma caps_ratio_lower: "caps_ratio (lower text) = 0"
  by (simp add: caps_ratio_def lower_def filter_empty_conv is_upper_lower_char)

lemma help_me_low: "intensity (detect_emotion None ''HELP ME'') = ''low''"
  by code_simp
lemma help_me_high: "calculate_intensity ''HELP ME'' 0 = ''high''"
  by code_simp
lemma help_me_caps: "caps_ratio ''HELP ME'' = 6 / 7"
  by code_simp

text \<open>
  C7 (what the code does): \<open>detect_emotion\<close> hands the lower-cased text to
  \<open>_calculate_intensity\<close>, and the share of upper-case characters of a lower-cased text
  is 0: the term \<open>10 * caps_ratio\<close> never counts. For the input \<open>HELP ME\<close>, six of whose
  seven characters are upper-case, the score of the claim is above 5 and the bucket
  \<open>high\<close>, which is what \<open>_calculate_intensity\<close> gives on the input itself; the
  classifier returns \<open>low\<close>.
\<close>

theorem intensity_ignores_capitals:
  "caps_ratio (lower text) = 0
   \<and> intensity (detect_emotion scorer text)
       = calculate_intensity (lower text) (snd (sentiment_of scorer text))
   \<and> caps_ratio ''HELP ME'' = 6 / 7
   \<and> calculate_intensity ''HELP ME'' 0 = ''high''
   \<and> intensity (detect_emotion None ''HELP ME'') = ''low''"
proof -
  have "intensity (detect_emotion scorer text)
       = calculate_intensity (lower text) (snd (sentiment_of scorer text))"
    by (simp add: detect_emotion_def Let_def split: prod.splits)
  with caps_ratio_lower help_me_caps help_me_high help_me_low show ?thesis by blast
qed

section \<open>A second pass of \<open>sanitize_output\<close>\<close>

lemma joe_first: "sanitize_output ''joe@mail.com5551234567'' = ''joe@mail.com[phone removed]''"
  by code_simp
lemma joe_second: "sanitize_output ''joe@mail.com[phone removed]'' = ''[email removed][phone removed]''"
  by code_simp

text \<open>
  C8 (what the code does): \<open>sanitize_output\<close> is not idempotent. In
  \<open>joe@mail.com5551234567\<close> the email pattern does not match, because no word boundary
  follows \<open>com\<close>; the phone pattern then replaces the digits. In the result the
  placeholder follows \<open>com\<close>, the boundary is there, and a second pass replaces the
  address that the first pass left in its output.
\<close>

theorem sanitize_output_second_pass:
  "sanitize_output ''joe@mail.com5551234567'' = ''joe@mail.com[phone removed]''
   \<and> sanitize_output (sanitize_output ''joe@mail.com5551234567'')
       = ''[email removed][phone removed]''
   \<and> sanitize_output (sanitize_output ''joe@mail.com5551234567'')
       \<noteq> sanitize_output ''joe@mail.com5551234567''"
  by (simp add: joe_first joe_second)

section \<open>The bounded history\<close>

text \<open>For a positive \<open>max_history\<close> the history after an update is the last
  \<open>2 * max_history\<close> entries of the extended history, and \<open>generate\<close>, which updates with
  the default of 10, keeps a history of at most 20 entries within 20.\<close>

lemma update_history_positive:
  "0 < n \<Longrightarrow>
   conversation_history (update_history self u b n)
     = (let h = conversation_history self
                  @ [\<lparr>role = ''user'', content = u\<rparr>, \<lparr>role = ''assistant'', content = b\<rparr>]
        in drop (length h - nat (2 * n)) h)"
  by (auto simp: update_history_def slice_from_def Let_def max_def intro!: arg_cong2 [of _ _ _ _ drop])

lemma update_history_bounded:
  "0 < n \<Longrightarrow> length (conversation_history (update_history self u b n)) \<le> nat (2 * n)"
  by (simp add: update_history_positive Let_def)

lemma last_entries_append:
  "drop (length (drop (length h - m) h @ t) - m) (drop (length h - m) h @ t)
     = drop (length (h @ t) - m) (h @ t)"
proof (cases "length h \<le> m")
  case True
  then show ?thesis by simp
next
  case False
  then have "length (drop (length h - m) h @ t) - m = length t" by simp
  moreover have "length (h @ t) - m = (length h - m) + length t" using False by simp
  ultimately show ?thesis
    by (simp only: drop_append drop_drop length_drop) (simp add: add.commute)
qed

lemma update_all_positive:
  assumes "0 < n"
  shows "length (conversation_history self) \<le> nat (2 * n) \<Longrightarrow>
         conversation_history (update_all self pairs n)
           = (let h = conversation_history self @ turns_of pairs
              in drop (length h - nat (2 * n)) h)"
proof (induction pairs arbitrary: self)
  case Nil
  then show ?case by simp
next
  case (Cons p pairs)
  obtain u b where p: "p = (u, b)" by (cases p)
  let ?new = "[\<lparr>role = ''user'', content = u\<rparr>, \<lparr>role = ''assistant'', content = b\<rparr>]"
  let ?h = "conversation_history self @ ?new"
  have step: "conversation_history (update_history self u b n)
                = drop (length ?h - nat (2 * n)) ?h"
    using update_history_positive [OF assms, of self u b] by (simp add: Let_def)
  have "conversation_history (update_all (update_history self u b n) pairs n)
          = drop (length (drop (length ?h - nat (2 * n)) ?h @ turns_of pairs) - nat (2 * n))
              (drop (length ?h - nat (2 * n)) ?h @ turns_of pairs)"
    using Cons.IH [of "update_history self u b n"] update_history_bounded [OF assms, of self u b]
    by (simp only: step Let_def)
  also have "\<dots> = drop (length (?h @ turns_of pairs) - nat (2 * n)) (?h @ turns_of pairs)"
    by (rule last_entries_append)
  finally show ?case by (simp add: p Let_def)
qed

lemma length_turns_of: "length (turns_of pairs) = 2 * length pairs"
  by (induction pairs rule: turns_of.induct) simp_all

lemma generate_history:
  assumes "generate scorer client console rnd self text ctx = Inr (r, self')"
  shows "conversation_history self' = conversation_history self
         \<or> (\<exists>bot. response r = Some bot
              \<and> conversation_history self'
                  = (let h = conversation_history self
                               @ [\<lparr>role = ''user'', content = text\<rparr>,
                                  \<lparr>role = ''assistant'', content = bot\<rparr>]
                     in drop (length h - 20) h))"
proof (cases "valid (validate_user_input text)")
  case False
  then have "conversation_history self' = conversation_history self"
    using assms by (auto simp: generate_invalid run_def)
  then show ?thesis by blast
next
  case True
  show ?thesis
  proof (cases "is_crisis (check_crisis text)")
    case crisis: True
    have "conversation_history self' = conversation_history self"
      using assms by (auto simp: generate_crisis [OF True crisis] run_def)
    then show ?thesis by blast
  next
    case False
    then show ?thesis
      using assms generate_continues [OF True False, of scorer client console rnd self ctx]
        update_history_positive [of 10]
      by (auto simp: run_def Let_def split: sum.splits)
  qed
qed

lemma generate_history_bounded:
  assumes "generate scorer client console rnd self text ctx = Inr (r, self')"
    and "length (conversation_history self) \<le> 20"
  shows "length (conversation_history self') \<le> 20"
  using generate_history [OF assms(1)] assms(2) by (auto simp: Let_def)

text \<open>The bound has to be positive: with \<open>max_history = 0\<close> the slice \<open>history[-0:]\<close> is
  the whole list, and nothing is dropped. No call in the program passes 0: the only call
  of \<open>_update_history\<close> is the one of \<open>generate\<close>, with the default of 10.\<close>

lemma update_history_zero:
  "conversation_history (update_history fresh_generator ''a'' ''b'' 0)
     = [\<lparr>role = ''user'', content = ''a''\<rparr>, \<lparr>role = ''assistant'', content = ''b''\<rparr>]"
  by (simp add: update_history_def fresh_generator_def slice_from_def Let_def)

lemma steady_valid: "valid (validate_user_input ''I feel low today'')"
  by (simp add: validate_eval)

lemma steady_no_crisis: "\<not> is_crisis (check_crisis ''I feel low today'')"
  by code_simp

lemma steady_response:
  "generate_response keyed_handler steady_service console rnd prompt label = Inr ''I hear you.''"
  by (simp add: generate_response_def keyed_handler_sel steady_service_def clean_response_def
      strip_def rstrip_of_def is_space_def)

lemma hear_you_filtered: "filter_response ''I hear you.'' user_message = (''I hear you.'', True)"
  using hear_you_clean hear_you_no_topic by (simp add: filter_response_def any_in_def)

lemma hear_you_sanitized: "sanitize_output ''I hear you.'' = ''I hear you.''"
  by code_simp

text \<open>
  C9: the internal history is a bounded queue. For a bound \<open>max_history = N\<close> of at least
  1 and a history within the bound, the history after any run of updates is the last
  \<open>2 * N\<close> entries, in the order of insertion, of the old history extended by the new
  turns, so it holds at most \<open>2 * N\<close> entries; after \<open>N + 1\<close> updates of an empty history
  it holds exactly the \<open>2 * N\<close> most recent entries, the oldest pair being dropped. A call
  of \<open>generate\<close> leaves the history as it is or sets it to the last 20 entries of the
  history extended by the user message and the reply, and so keeps a history of at most
  20 entries within 20.
\<close>

theorem history_is_bounded_fifo:
  assumes "1 \<le> n" and "length (conversation_history self) \<le> nat (2 * n)"
  shows "conversation_history (update_all self pairs n)
           = (let h = conversation_history self @ turns_of pairs
              in drop (length h - nat (2 * n)) h)
   \<and> length (conversation_history (update_all self pairs n)) \<le> nat (2 * n)
   \<and> (conversation_history self = [] \<and> length pairs = nat n + 1 \<longrightarrow>
        conversation_history (update_all self pairs n) = turns_of (tl pairs)
        \<and> length (conversation_history (update_all self pairs n)) = nat (2 * n))
   \<and> (generate scorer client console rnd g text ctx = Inr (r, g')
        \<and> length (conversation_history g) \<le> 20 \<longrightarrow>
        length (conversation_history g') \<le> 20
        \<and> (conversation_history g' = conversation_history g
            \<or> (\<exists>bot. response r = Some bot
                 \<and> conversation_history g'
                     = (let h = conversation_history g
                                  @ [\<lparr>role = ''user'', content = text\<rparr>,
                                     \<lparr>role = ''assistant'', content = bot\<rparr>]
                        in drop (length h - 20) h))))"
proof -
  have pos: "0 < n" using assms(1) by simp
  have a: "conversation_history (update_all self pairs n)
           = (let h = conversation_history self @ turns_of pairs
              in drop (length h - nat (2 * n)) h)"
    by (rule update_all_positive [OF pos assms(2)])
  have b: "length (conversation_history (update_all self pairs n)) \<le> nat (2 * n)"
    using assms(2) by (simp add: a Let_def)
  have c: "conversation_history (update_all self pairs n) = turns_of (tl pairs)
        \<and> length (conversation_history (update_all self pairs n)) = nat (2 * n)"
    if empty: "conversation_history self = []" and len: "length pairs = nat n + 1"
  proof -
    obtain p ps where ps: "pairs = p # ps" using len by (cases pairs) simp_all
    obtain u v where p: "p = (u, v)" by (cases p)
    have "length ps = nat n" using len ps by simp
    then have twice: "2 * length ps = nat (2 * n)" using pos by (simp add: nat_mult_distrib)
    have e: "conversation_history (update_all self pairs n)
               = drop (length (turns_of pairs) - nat (2 * n)) (turns_of pairs)"
      using a empty by (simp add: Let_def)
    have "length (turns_of pairs) - nat (2 * n) = 2"
      using twice by (simp add: length_turns_of ps)
    moreover have "drop 2 (turns_of pairs) = turns_of (tl pairs)"
      by (simp add: ps p)
    moreover have "length (turns_of (tl pairs)) = nat (2 * n)"
      using twice by (simp add: length_turns_of ps)
    ultimately show ?thesis by (simp only: e)
  qed
  have d: "length (conversation_history g') \<le> 20
        \<and> (conversation_history g' = conversation_history g
            \<or> (\<exists>bot. response r = Some bot
                 \<and> conversation_history g'
                     = (let h = conversation_history g
                                  @ [\<lparr>role = ''user'', content = text\<rparr>,
                                     \<lparr>role = ''assistant'', content = bot\<rparr>]
                        in drop (length h - 20) h)))"
    if "generate scorer client console rnd g text ctx = Inr (r, g')"
      and "length (conversation_history g) \<le> 20"
    using generate_history [OF that(1)] generate_history_bounded [OF that] by blast
  from a b c d show ?thesis by blast
qed

theorem history_is_bounded_fifo_witness:
  "conversation_history (update_all fresh_generator [(''a'', ''b''), (''c'', ''d'')] 1)
     = [\<lparr>role = ''user'', content = ''c''\<rparr>, \<lparr>role = ''assistant'', content = ''d''\<rparr>]
   \<and> (\<exists>r g'. generate None steady_service quiet_console 0 keyed_generator ''I feel low today'' None
                = Inr (r, g')
         \<and> response r = Some ''I hear you.''
         \<and> length (conversation_history g') \<le> 20)"
proof -
  have h: "length (conversation_history fresh_generator) \<le> nat (2 * 1)"
    "conversation_history fresh_generator = []"
    by (simp_all add: fresh_generator_def)
  have k: "length (conversation_history keyed_generator) \<le> 20"
    by (simp add: keyed_generator_def)
  obtain g' where g: "generate None steady_service quiet_console 0 keyed_generator ''I feel low today'' None
      = Inr (create_response_object (Some ''I hear you.'')
               (dict_of (detect_emotion None ''I feel low today'')) True
               [''model_used'' \<mapsto> PStr (current_model keyed_handler),
                ''prompt_length'' \<mapsto> PInt (int (length
                   (build_prompt ''I feel low today''
                      (primary_emotion (detect_emotion None ''I feel low today'')) [])))],
             g')"
    using generate_continues [OF steady_valid steady_no_crisis,
        of None steady_service quiet_console 0 keyed_generator None]
    by (simp add: steady_response keyed_handler_sel hear_you_filtered hear_you_sanitized
        keyed_generator_def)
  show ?thesis
    using history_is_bounded_fifo [of 1 fresh_generator "[(''a'', ''b''), (''c'', ''d'')]"
        None steady_service quiet_console 0 keyed_generator "''I feel low today''" None _ g'] h k g
    by simp
qed

section \<open>The product \<open>len(text) * 0.7\<close>\<close>

text \<open>The rounded product stays below every count that exceeds 70 percent of the
  length, for a text of fewer than \<open>2^50\<close> characters.\<close>

lemma bit_length_lower: "0 < p \<Longrightarrow> 2 ^ (bit_length p - 1) \<le> p"
proof (induction p rule: bit_length.induct)
  case (1 n)
  show ?case
  proof (cases "n div 2 = 0")
    case True
    with "1.prems" have "n = 1" by presburger
    then show ?thesis by (simp add: bit_length.simps)
  next
    case False
    then have ih: "2 ^ (bit_length (n div 2) - 1) \<le> n div 2"
      using "1.IH" "1.prems" by simp
    have pos: "0 < bit_length (n div 2)"
      using False by (subst bit_length.simps) simp
    have "bit_length n = Suc (bit_length (n div 2))"
      using "1.prems" by (subst bit_length.simps) simp
    then have "(2::nat) ^ (bit_length n - 1) = 2 * 2 ^ (bit_length (n div 2) - 1)"
      using pos by (cases "bit_length (n div 2)") simp_all
    also have "\<dots> \<le> 2 * (n div 2)" using ih by simp
    also have "\<dots> \<le> n" by simp
    finally show ?thesis .
  qed
qed

lemma round_to_53_bits_exact: "bit_length p \<le> 53 \<Longrightarrow> round_to_53_bits p = p"
  by (simp add: round_to_53_bits_def)

lemma round_to_53_bits_upper:
  "2 * round_to_53_bits p \<le> 2 * p + 2 ^ (bit_length p - 53)"
proof -
  define sh where "sh = bit_length p - 53"
  define q where "q = p div 2 ^ sh"
  define r where "r = p mod 2 ^ sh"
  define P :: nat where "P = 2 ^ sh"
  have p: "q * P + r = p" unfolding q_def r_def P_def by (rule div_mult_mod_eq)
  have "2 * round_to_53_bits p \<le> 2 * (q * P + r) + P"
  proof (cases "P < 2 * r \<or> (2 * r = P \<and> odd q)")
    case True
    then have "round_to_53_bits p = (q + 1) * P"
      by (simp add: round_to_53_bits_def Let_def sh_def q_def r_def P_def)
    moreover have "P \<le> 2 * r" using True by auto
    ultimately show ?thesis by (simp add: algebra_simps)
  next
    case False
    then have "round_to_53_bits p = q * P"
      by (simp add: round_to_53_bits_def Let_def sh_def q_def r_def P_def)
    then show ?thesis by simp
  qed
  then show ?thesis unfolding p by (simp only: P_def sh_def)
qed

lemma float_mul_07_arith:
  fixes n k R S :: nat
  assumes "n < 1125899906842624" and "7 * n < 10 * k"
    and "S * 4503599627370496 \<le> n * 6305039478318694"
    and "2 * R \<le> 2 * (n * 6305039478318694) + S"
  shows "R < k * 9007199254740992"
  using assms by linarith


lemma float_mul_07_below:
  assumes "n < 2 ^ 50" and "7 * n < 10 * k"
  shows "float_mul_07 n < of_nat k"
proof -
  define p where "p = n * 6305039478318694"
  define R where "R = round_to_53_bits p"
  have n: "n < 1125899906842624" using assms(1) by simp
  have "R < k * 9007199254740992"
  proof (cases "bit_length p \<le> 53")
    case True
    then have "R = n * 6305039478318694" by (simp add: R_def p_def round_to_53_bits_exact)
    then show ?thesis using assms(2) by linarith
  next
    case False
    define S :: nat where "S = 2 ^ (bit_length p - 53)"
    have "0 < p" using False by (cases "p = 0") (simp_all add: bit_length.simps)
    then have "2 ^ (bit_length p - 1) \<le> p" by (rule bit_length_lower)
    moreover have "bit_length p - 1 = (bit_length p - 53) + 52" using False by simp
    ultimately have "S * 2 ^ 52 \<le> p" by (simp only: S_def power_add)
    then have a: "S * 4503599627370496 \<le> n * 6305039478318694" by (simp add: p_def)
    have "2 * R \<le> 2 * p + S"
      unfolding R_def S_def by (rule round_to_53_bits_upper)
    then have b: "2 * R \<le> 2 * (n * 6305039478318694) + S" by (simp only: p_def)
    show ?thesis by (rule float_mul_07_arith [OF n assms(2) a b])
  qed
  then have "(of_nat R :: rat) < of_nat (k * 9007199254740992)" by (simp only: of_nat_less_iff)
  then have "(of_nat R :: rat) / 9007199254740992 < of_nat k" by simp
  then show ?thesis
    by (simp add: float_mul_07_def R_def p_def)
qed

lemma ninety_rounds_down: "float_mul_07 90 < 63 \<and> \<not> float_mul_07 10 < 7"
  by (simp add: float_mul_07_def round_to_53_bits_def bit_length.simps)

section \<open>Gibberish\<close>

lemma gibberish_verdict:
  assumes "2 \<le> length (strip (c # cs))"
    and "length (remdups (c # cs)) < 3
         \<or> float_mul_07 (length (c # cs)) < of_nat (count_list (c # cs) c)"
  shows "validate_user_input (c # cs) =
           \<lparr>valid = False, reason = ''gibberish'',
            suggestion = Some ''I'm having trouble understanding. Could you rephrase that?''\<rparr>"
proof -
  have "\<not> length (strip (c # cs)) < 2" using assms(1) by simp
  then show ?thesis
    using assms(2) unfolding validate_user_input_def by (simp only: list.case if_False if_True)
qed

lemma aaa_strip: "2 \<le> length (strip ''aaaaaaaabc'')"
  by (simp add: strip_def rstrip_of_def is_space_def)

lemma aaa_frequent:
  "7 * length ''aaaaaaaabc'' < 10 * count_list ''aaaaaaaabc'' (hd ''aaaaaaaabc'')"
  by simp

lemma aaa_distinct: "card (set ''aaaaaaaabc'') = 3"
  by (simp add: card_insert_if)

lemma abc_ok:
  "validate_user_input ''abcccccccccc'' = \<lparr>valid = True, reason = ''ok'', suggestion = None\<rparr>"
  by (simp add: validate_eval)

lemma a_empty:
  "validate_user_input ''a'' =
     \<lparr>valid = False, reason = ''empty'', suggestion = Some ''Please share what's on your mind.''\<rparr>"
  by (simp add: validate_eval)

text \<open>
  C6 (as the code has it): for every text of fewer than \<open>2^50\<close> characters that has at
  least two characters once the whitespace around it is stripped, if fewer than three
  distinct characters occur in it, or if its first character makes up more than 70 percent
  of its length, then \<open>validate_user_input\<close> returns \<open>valid = False\<close> with the reason
  \<open>gibberish\<close>.
\<close>

theorem first_character_gibberish:
  assumes "2 \<le> length (strip text)" and "length text < 2 ^ 50"
    and "card (set text) < 3 \<or> 7 * length text < 10 * count_list text (hd text)"
  shows "validate_user_input text =
           \<lparr>valid = False, reason = ''gibberish'',
            suggestion = Some ''I'm having trouble understanding. Could you rephrase that?''\<rparr>"
proof (cases "text")
  case Nil
  with assms(1) show ?thesis by (simp add: strip_def rstrip_of_def)
next
  case (Cons c cs)
  have "length (remdups text) < 3 \<or> float_mul_07 (length text) < of_nat (count_list text c)"
  proof (cases "card (set text) < 3")
    case True
    then show ?thesis by (simp add: length_remdups_card_conv)
  next
    case False
    with assms(3) have "7 * length text < 10 * count_list text c"
      using Cons by simp
    then show ?thesis
      using float_mul_07_below [OF assms(2)] by blast
  qed
  then show ?thesis
    using assms(1) gibberish_verdict [of c cs] unfolding Cons by blast
qed

theorem first_character_gibberish_witness:
  "2 \<le> length (strip ''aaaaaaaabc'') \<and> card (set ''aaaaaaaabc'') = 3
   \<and> 7 * length ''aaaaaaaabc'' < 10 * count_list ''aaaaaaaabc'' (hd ''aaaaaaaabc'')
   \<and> validate_user_input ''aaaaaaaabc'' =
        \<lparr>valid = False, reason = ''gibberish'',
         suggestion = Some ''I'm having trouble understanding. Could you rephrase that?''\<rparr>"
proof -
  have "length ''aaaaaaaabc'' < 2 ^ 50" by simp
  from first_character_gibberish [OF aaa_strip this] aaa_frequent
  have "validate_user_input ''aaaaaaaabc'' =
        \<lparr>valid = False, reason = ''gibberish'',
         suggestion = Some ''I'm having trouble understanding. Could you rephrase that?''\<rparr>"
    by blast
  with aaa_strip aaa_frequent aaa_distinct show ?thesis by blast
qed

text \<open>
  C6 as it is stated fails. In \<open>abcccccccccc\<close> the character \<open>c\<close> makes up ten of twelve
  characters, but it is not the first one, and the text is accepted. The text \<open>a\<close> has
  fewer than three distinct characters, and is rejected as empty, not as gibberish.
\<close>

theorem frequent_character_counterexample:
  "7 * length ''abcccccccccc'' < 10 * count_list ''abcccccccccc'' (CHR ''c'')
   \<and> validate_user_input ''abcccccccccc'' = \<lparr>valid = True, reason = ''ok'', suggestion = None\<rparr>
   \<and> card (set ''a'') < 3
   \<and> validate_user_input ''a'' =
        \<lparr>valid = False, reason = ''empty'', suggestion = Some ''Please share what's on your mind.''\<rparr>"
  by (simp add: abc_ok a_empty)

end
